theory Spec2Isabelle
  imports Complex_Main
begin

section \<open>Values exchanged with the platform\<close>

text \<open>
  A thrown value. The source never inspects what it catches, it only logs it.
\<close>

datatype error = Error string

text \<open>
  The \<open>status\<close> field of a permission response of expo-location.
\<close>

datatype PermissionStatus = GRANTED | DENIED | UNDETERMINED

text \<open>
  A JavaScript \<open>number\<close>: a finite double is represented by its exact mathematical
  value; the three non-finite values are kept apart. The coordinator only copies numbers;
  the view formats them with \<open>toFixed\<close>.
\<close>

datatype number = Number rat | NaN | Infinity | NegInfinity

text \<open>
  The position object delivered by expo-location (the fields the source reads).
\<close>

record LocationObjectCoords =
  latitude :: number
  longitude :: number
  accuracy :: "number option"

record LocationObject =
  coords :: LocationObjectCoords
  timestamp :: number

text \<open>
  \<open>interface LocationData\<close> of LocationService.ts (and, identically, of
  LocationTracker.tsx); \<open>accuracy: number | null\<close> is an option.
\<close>

record LocationData =
  latitude :: number
  longitude :: number
  accuracy :: "number option"
  timestamp :: number

text \<open>
  The four assignments that both files use to build a \<open>LocationData\<close> from a
  platform position.
\<close>

definition toLocationData :: "LocationObject \<Rightarrow> LocationData" where
  "toLocationData location =
     \<lparr> latitude = LocationObjectCoords.latitude (coords location),
       longitude = LocationObjectCoords.longitude (coords location),
       accuracy = LocationObjectCoords.accuracy (coords location),
       timestamp = LocationObject.timestamp location \<rparr>"

section \<open>The platform: expo-location and expo-task-manager\<close>

text \<open>
  A subscription handle returned by \<open>watchPositionAsync\<close>.
\<close>

type_synonym LocationSubscription = nat

text \<open>
  The platform is outside the repository. Its state holds what the source can observe:
  the outcome of each call (a rejection is \<open>Inl\<close> or \<open>Some\<close> of the thrown value),
  the watches that are open, and whether the background task
  \<open>'background-location-task'\<close> is registered.
\<close>

record Platform =
  foregroundPermissions :: "error + PermissionStatus"
  backgroundPermissions :: "error + PermissionStatus"
  currentPosition :: "error + LocationObject"
  watchPosition :: "error option"
  nextSubscription :: LocationSubscription
  subscriptions :: "LocationSubscription list"
  removeSubscription :: "error option"
  taskQuery :: "error option"
  taskRegistered :: bool
  startUpdates :: "error option"
  stopUpdates :: "error option"

text \<open>
  What every component runs in: the platform and the console.
\<close>

record Env =
  platform :: Platform
  console :: "string list"

section \<open>Asynchronous computations that may throw\<close>

text \<open>
  An \<open>async\<close> function body run to completion on a state: it either returns a value
  (\<open>Inr\<close>) or throws (\<open>Inl\<close>), and leaves a new state. \<open>await\<close> is sequencing.
\<close>

type_synonym ('s, 'a) Async = "'s \<Rightarrow> (error + 'a) \<times> 's"

definition resolve :: "'a \<Rightarrow> ('s, 'a) Async" where
  "resolve x = (\<lambda>s. (Inr x, s))"

definition throw :: "error \<Rightarrow> ('s, 'a) Async" where
  "throw e = (\<lambda>s. (Inl e, s))"

definition await :: "('s, 'a) Async \<Rightarrow> ('a \<Rightarrow> ('s, 'b) Async) \<Rightarrow> ('s, 'b) Async" where
  "await m f = (\<lambda>s. case m s of (Inl e, s') \<Rightarrow> (Inl e, s') | (Inr x, s') \<Rightarrow> f x s')"

definition tryCatch :: "('s, 'a) Async \<Rightarrow> (error \<Rightarrow> ('s, 'a) Async) \<Rightarrow> ('s, 'a) Async" where
  "tryCatch body handler =
     (\<lambda>s. case body s of (Inl e, s') \<Rightarrow> handler e s' | (Inr x, s') \<Rightarrow> (Inr x, s'))"

definition onPlatform :: "(Platform, 'a) Async \<Rightarrow> ('z Env_scheme, 'a) Async" where
  "onPlatform m = (\<lambda>w. case m (platform w) of (r, p) \<Rightarrow> (r, w\<lparr>platform := p\<rparr>))"

definition console_log :: "string \<Rightarrow> ('z Env_scheme, unit) Async" where
  "console_log msg = (\<lambda>w. (Inr (), w\<lparr>console := console w @ [msg]\<rparr>))"

definition console_error :: "string \<Rightarrow> ('z Env_scheme, unit) Async" where
  "console_error msg = (\<lambda>w. (Inr (), w\<lparr>console := console w @ [msg]\<rparr>))"

subsection \<open>Platform calls\<close>

definition requestForegroundPermissionsAsync :: "(Platform, PermissionStatus) Async" where
  "requestForegroundPermissionsAsync = (\<lambda>p. (foregroundPermissions p, p))"

definition requestBackgroundPermissionsAsync :: "(Platform, PermissionStatus) Async" where
  "requestBackgroundPermissionsAsync = (\<lambda>p. (backgroundPermissions p, p))"

definition getCurrentPositionAsync :: "(Platform, LocationObject) Async" where
  "getCurrentPositionAsync = (\<lambda>p. (currentPosition p, p))"

definition watchPositionAsync :: "(Platform, LocationSubscription) Async" where
  "watchPositionAsync =
     (\<lambda>p. case watchPosition p of
            Some e \<Rightarrow> (Inl e, p)
          | None \<Rightarrow> (Inr (nextSubscription p),
                     p\<lparr>subscriptions := subscriptions p @ [nextSubscription p],
                       nextSubscription := Suc (nextSubscription p)\<rparr>))"

definition remove :: "LocationSubscription \<Rightarrow> (Platform, unit) Async" where
  "remove h =
     (\<lambda>p. case removeSubscription p of
            Some e \<Rightarrow> (Inl e, p)
          | None \<Rightarrow> (Inr (), p\<lparr>subscriptions := removeAll h (subscriptions p)\<rparr>))"

definition isTaskRegisteredAsync :: "(Platform, bool) Async" where
  "isTaskRegisteredAsync =
     (\<lambda>p. case taskQuery p of Some e \<Rightarrow> (Inl e, p) | None \<Rightarrow> (Inr (taskRegistered p), p))"

definition startLocationUpdatesAsync :: "(Platform, unit) Async" where
  "startLocationUpdatesAsync =
     (\<lambda>p. case startUpdates p of
            Some e \<Rightarrow> (Inl e, p)
          | None \<Rightarrow> (Inr (), p\<lparr>taskRegistered := True\<rparr>))"

definition stopLocationUpdatesAsync :: "(Platform, unit) Async" where
  "stopLocationUpdatesAsync =
     (\<lambda>p. case stopUpdates p of
            Some e \<Rightarrow> (Inl e, p)
          | None \<Rightarrow> (Inr (), p\<lparr>taskRegistered := False\<rparr>))"

section \<open>LocationTracker (components/LocationTracker.tsx)\<close>

subsection \<open>Display formatting\<close>

text \<open>
  A JavaScript string is represented by its sequence of code units; every code unit that
  occurs in the source is below 256, so each is one \<open>char\<close>.

  The decimal digits of a natural number.
\<close>

fun digits :: "nat \<Rightarrow> string" where
  "digits n =
     (if n < 10 then [''0123456789'' ! n]
      else digits (n div 10) @ [''0123456789'' ! (n mod 10)])"

declare digits.simps [simp del]

text \<open>
  \<open>Number.prototype.toFixed\<close> as ECMAScript defines it, on the exact value of the
  number: a \<open>RangeError\<close> for more than 100 fraction digits; the non-finite values
  print as their names; otherwise the sign, then the integer \<open>n\<close> for which
  \<open>n / 10^f\<close> is closest to the magnitude (the larger one on a tie), padded with
  zeros to at least \<open>f + 1\<close> digits and with the point before the last \<open>f\<close>. From
  \<open>10^21\<close> on the language prints the number with \<open>Number::toString\<close>, exponent
  notation that depends on the binary format: that function is the parameter
  \<open>numberToString\<close>.
\<close>

definition toFixed :: "(rat \<Rightarrow> string) \<Rightarrow> number \<Rightarrow> nat \<Rightarrow> error + string" where
  "toFixed numberToString x f =
     (if f > 100 then Inl (Error ''RangeError'')
      else case x of
        NaN \<Rightarrow> Inr ''NaN''
      | Infinity \<Rightarrow> Inr ''Infinity''
      | NegInfinity \<Rightarrow> Inr ''-Infinity''
      | Number r \<Rightarrow>
          (let s = (if r < 0 then ''-'' else ''''); a = \<bar>r\<bar> in
           if a \<ge> 10 ^ 21 then Inr (s @ numberToString a)
           else
             let n = nat \<lfloor>a * 10 ^ f + 1 / 2\<rfloor>;
                 m = digits n;
                 m = (if f \<noteq> 0 \<and> length m \<le> f
                      then replicate (f + 1 - length m) (CHR ''0'') @ m else m);
                 m = (if f \<noteq> 0
                      then take (length m - f) m @ ''.'' @ drop (length m - f) m else m)
             in Inr (s @ m)))"

text \<open>
  \<open>formatCoordinate(value, precision = 6)\<close>: an omitted argument is \<open>None\<close>.
\<close>

definition formatCoordinate ::
  "(rat \<Rightarrow> string) \<Rightarrow> number \<Rightarrow> nat option \<Rightarrow> error + string" where
  "formatCoordinate numberToString val precision =
     toFixed numberToString val (case precision of None \<Rightarrow> 6 | Some p \<Rightarrow> p)"

text \<open>
  \<open>formatAccuracy\<close>. The template literal of the source file starts with the two
  characters U+00C2 and U+00B1 (the file's bytes there are C3 82 C2 B1).
\<close>

definition formatAccuracy :: "(rat \<Rightarrow> string) \<Rightarrow> number option \<Rightarrow> error + string" where
  "formatAccuracy numberToString acc =
     (case acc of
        None \<Rightarrow> Inr ''Unknown''
      | Some a \<Rightarrow>
          (case toFixed numberToString a 1 of
             Inl e \<Rightarrow> Inl e
           | Inr d \<Rightarrow> Inr ([CHR 0xC2, CHR 0xB1] @ d @ ''m'')))"

subsection \<open>Component state\<close>

text \<open>
  The five \<open>useState\<close> cells of the component.
\<close>

record LocationTracker =
  isTracking :: bool
  currentLocation :: "LocationData option"
  hasPermission :: "bool option"
  lastUpdateTime :: string
  watchSubscription :: "LocationSubscription option"

text \<open>
  A mounted component. \<open>hooks\<close> holds the current value of each cell. A function
  created during a render sees the values the cells had in that render: every handler
  below takes them as its first argument \<open>scope\<close>. The effect has the dependency list
  \<open>[]\<close>, so React runs it once, after the first render, and keeps the cleanup function
  that run returned until the component unmounts; \<open>mountScope\<close> is the scope of that
  cleanup function. \<open>alerts\<close> are the dialogs shown (title and message), \<open>localeTime\<close>
  is what \<open>new Date().toLocaleTimeString()\<close> returns.
\<close>

record View = Env +
  hooks :: LocationTracker
  mountScope :: LocationTracker
  alerts :: "(string \<times> string) list"
  localeTime :: string

datatype AlertButton = Cancel | Start

definition setState :: "(LocationTracker \<Rightarrow> LocationTracker) \<Rightarrow> (View, unit) Async" where
  "setState update = (\<lambda>v. (Inr (), v\<lparr>hooks := update (hooks v)\<rparr>))"

definition alert :: "string \<Rightarrow> string \<Rightarrow> (View, unit) Async" where
  "alert title message = (\<lambda>v. (Inr (), v\<lparr>alerts := alerts v @ [(title, message)]\<rparr>))"

definition toLocaleTimeString :: "(View, string) Async" where
  "toLocaleTimeString = (\<lambda>v. (Inr (localeTime v), v))"

text \<open>
  The values of the cells in the first render: the arguments of the \<open>useState\<close> calls.
\<close>

definition initialState :: LocationTracker where
  "initialState =
     \<lparr> isTracking = False, currentLocation = None, hasPermission = None,
       lastUpdateTime = '''', watchSubscription = None \<rparr>"

definition checkPermissions :: "(View, unit) Async" where
  "checkPermissions =
     tryCatch
       (await (onPlatform requestForegroundPermissionsAsync) (\<lambda>status.
        await (setState (\<lambda>s. s\<lparr>hasPermission := Some (status = GRANTED)\<rparr>)) (\<lambda>_.
        if status \<noteq> GRANTED then
          alert ''Permission Required''
            ''Location permission is required to track your position. Please enable it in Settings.''
        else resolve ())))
       (\<lambda>error.
          await (console_error ''Permission error:'') (\<lambda>_.
          setState (\<lambda>s. s\<lparr>hasPermission := Some False\<rparr>)))"

text \<open>
  The callback the view hands to \<open>watchPositionAsync\<close>.
\<close>

definition viewWatchCallback :: "LocationObject \<Rightarrow> (View, unit) Async" where
  "viewWatchCallback location =
     (let locationData = toLocationData location in
      await (setState (\<lambda>s. s\<lparr>currentLocation := Some locationData\<rparr>)) (\<lambda>_.
      await toLocaleTimeString (\<lambda>now.
      await (setState (\<lambda>s. s\<lparr>lastUpdateTime := now\<rparr>)) (\<lambda>_.
      console_log ''Location updated:''))))"

text \<open>
  \<open>handleStartTracking\<close>; \<open>button\<close> is the button of the confirmation dialog that the
  user presses. \<open>!hasPermission\<close> holds for \<open>null\<close> and for \<open>false\<close>. A position
  object is truthy, so the test \<open>if (initialLocation)\<close> always succeeds.
\<close>

definition handleStartTracking :: "LocationTracker \<Rightarrow> AlertButton \<Rightarrow> (View, unit) Async" where
  "handleStartTracking scope button =
     (if hasPermission scope \<noteq> Some True then checkPermissions
      else
        await (alert ''Start Location Tracking''
                 ''This will track your location continuously while the app is active.'') (\<lambda>_.
        case button of
          Cancel \<Rightarrow> resolve ()
        | Start \<Rightarrow>
            tryCatch
              (await (onPlatform watchPositionAsync) (\<lambda>subscription.
               await (setState (\<lambda>s. s\<lparr>watchSubscription := Some subscription\<rparr>)) (\<lambda>_.
               await (setState (\<lambda>s. s\<lparr>isTracking := True\<rparr>)) (\<lambda>_.
               await (onPlatform getCurrentPositionAsync) (\<lambda>initialLocation.
               let locationData = toLocationData initialLocation in
               await (setState (\<lambda>s. s\<lparr>currentLocation := Some locationData\<rparr>)) (\<lambda>_.
               await toLocaleTimeString (\<lambda>now.
               setState (\<lambda>s. s\<lparr>lastUpdateTime := now\<rparr>))))))))
              (\<lambda>error.
                 await (console_error ''Location tracking error:'') (\<lambda>_.
                 alert ''Error'' ''Failed to start location tracking''))))"

definition handleStopTracking :: "LocationTracker \<Rightarrow> (View, unit) Async" where
  "handleStopTracking scope =
     await
       (case watchSubscription scope of
          Some h \<Rightarrow>
            await (onPlatform (remove h)) (\<lambda>_.
            setState (\<lambda>s. s\<lparr>watchSubscription := None\<rparr>))
        | None \<Rightarrow> resolve ())
       (\<lambda>_.
     await (setState (\<lambda>s. s\<lparr>isTracking := False\<rparr>)) (\<lambda>_.
     setState (\<lambda>s. s\<lparr>lastUpdateTime := ''''\<rparr>)))"

definition handleGetCurrentLocation :: "LocationTracker \<Rightarrow> (View, unit) Async" where
  "handleGetCurrentLocation scope =
     (if hasPermission scope \<noteq> Some True then checkPermissions
      else
        tryCatch
          (await (onPlatform getCurrentPositionAsync) (\<lambda>location.
           let locationData = toLocationData location in
           await (setState (\<lambda>s. s\<lparr>currentLocation := Some locationData\<rparr>)) (\<lambda>_.
           await toLocaleTimeString (\<lambda>now.
           setState (\<lambda>s. s\<lparr>lastUpdateTime := now\<rparr>)))))
          (\<lambda>error.
             await (console_error ''Get location error:'') (\<lambda>_.
             alert ''Error'' ''Failed to get current location'')))"

text \<open>
  The function the effect returns: \<open>if (watchSubscription) watchSubscription.remove()\<close>,
  with \<open>watchSubscription\<close> read from the scope the function was created in.
\<close>

definition cleanup :: "LocationTracker \<Rightarrow> (View, unit) Async" where
  "cleanup scope =
     (case watchSubscription scope of
        Some h \<Rightarrow> onPlatform (remove h)
      | None \<Rightarrow> resolve ())"

text \<open>
  Mounting renders the component for the first time, with the initial values of the
  cells, and then runs the effect of that render: it calls \<open>checkPermissions\<close> and
  returns the cleanup function of that render.
\<close>

definition mount :: "Platform \<Rightarrow> string \<Rightarrow> (error + unit) \<times> View" where
  "mount p time =
     (let scope = initialState in
      checkPermissions
        \<lparr> platform = p, console = [], hooks = scope, mountScope = scope,
          alerts = [], localeTime = time \<rparr>)"

text \<open>
  A press runs the handler of the latest render, whose scope is the current value of the
  cells. Unmounting runs the cleanup function React kept from the mount.
\<close>

definition press :: "(LocationTracker \<Rightarrow> (View, unit) Async) \<Rightarrow> (View, unit) Async" where
  "press handler = (\<lambda>v. handler (hooks v) v)"

definition unmount :: "(View, unit) Async" where
  "unmount = (\<lambda>v. cleanup (mountScope v) v)"

section \<open>LocationService (services/LocationService.ts)\<close>

text \<open>
  The private fields of the class. A callback is opaque to the service: it is kept as a
  value of type \<open>'cb\<close>, and each call of it is recorded, with its argument, in
  \<open>calls\<close>.
\<close>

record 'cb LocationService =
  isTracking :: bool
  currentLocation :: "LocationData option"
  locationSubscription :: "LocationSubscription option"
  onLocationUpdate :: "'cb option"

record 'cb World = Env +
  service :: "'cb LocationService"
  calls :: "('cb \<times> LocationData) list"

text \<open>
  The state of a new instance (the field initialisers of the class).
\<close>

definition newLocationService :: "'cb LocationService" where
  "newLocationService =
     \<lparr> isTracking = False, currentLocation = None,
       locationSubscription = None, onLocationUpdate = None \<rparr>"

definition this :: "('cb LocationService \<Rightarrow> 'a) \<Rightarrow> ('cb World, 'a) Async" where
  "this field = (\<lambda>w. (Inr (field (service w)), w))"

definition assign ::
  "('cb LocationService \<Rightarrow> 'cb LocationService) \<Rightarrow> ('cb World, unit) Async" where
  "assign update = (\<lambda>w. (Inr (), w\<lparr>service := update (service w)\<rparr>))"

definition invoke :: "'cb \<Rightarrow> LocationData \<Rightarrow> ('cb World, unit) Async" where
  "invoke cb locationData = (\<lambda>w. (Inr (), w\<lparr>calls := calls w @ [(cb, locationData)]\<rparr>))"

definition requestPermissions :: "('cb World, bool) Async" where
  "requestPermissions =
     tryCatch
       (await (onPlatform requestForegroundPermissionsAsync) (\<lambda>foregroundStatus.
          if foregroundStatus \<noteq> GRANTED then
            await (console_log ''Foreground location permission not granted'') (\<lambda>_.
            resolve False)
          else
            await (onPlatform requestBackgroundPermissionsAsync) (\<lambda>backgroundStatus.
              if backgroundStatus \<noteq> GRANTED then
                await (console_log
                  ''Background location permission not granted, but foreground is available'')
                  (\<lambda>_.
                resolve True)
              else resolve True)))
       (\<lambda>error.
          await (console_error ''Error requesting location permissions:'') (\<lambda>_.
          resolve False))"

definition getCurrentLocation :: "('cb World, LocationData option) Async" where
  "getCurrentLocation =
     tryCatch
       (await (onPlatform getCurrentPositionAsync) (\<lambda>location.
          let locationData = toLocationData location in
          await (assign (\<lambda>s. s\<lparr>currentLocation := Some locationData\<rparr>)) (\<lambda>_.
          resolve (Some locationData))))
       (\<lambda>error.
          await (console_error ''Error getting current location:'') (\<lambda>_.
          resolve None))"


definition startTracking :: "'cb option \<Rightarrow> ('cb World, bool) Async" where
  "startTracking cb =
     await (this isTracking) (\<lambda>tracking.
       if tracking then
         await (console_log ''Location tracking is already active'') (\<lambda>_.
         resolve True)
       else
         tryCatch
           (await (assign (\<lambda>s. s\<lparr>onLocationUpdate := cb\<rparr>)) (\<lambda>_.
            await (onPlatform watchPositionAsync) (\<lambda>subscription.
            await (assign (\<lambda>s. s\<lparr>locationSubscription := Some subscription\<rparr>)) (\<lambda>_.
            await
              (tryCatch
                 (await (onPlatform isTaskRegisteredAsync) (\<lambda>isRegistered.
                    if \<not> isRegistered then
                      await (onPlatform startLocationUpdatesAsync) (\<lambda>_.
                      console_log ''Background location tracking started'')
                    else resolve ()))
                 (\<lambda>backgroundError.
                    console_log
                      ''Background location not available, continuing with foreground only:''))
              (\<lambda>_.
            await (assign (\<lambda>s. s\<lparr>isTracking := True\<rparr>)) (\<lambda>_.
            resolve True))))))
           (\<lambda>error.
              await (console_error ''Error starting location tracking:'') (\<lambda>_.
              resolve False)))"

definition stopTracking :: "('cb World, unit) Async" where
  "stopTracking =
     await (this isTracking) (\<lambda>tracking.
       if \<not> tracking then resolve ()
       else
         tryCatch
           (await (this locationSubscription) (\<lambda>subscription.
            await
              (case subscription of
                 Some h \<Rightarrow>
                   await (onPlatform (remove h)) (\<lambda>_.
                   assign (\<lambda>s. s\<lparr>locationSubscription := None\<rparr>))
               | None \<Rightarrow> resolve ())
              (\<lambda>_.
            await (onPlatform isTaskRegisteredAsync) (\<lambda>isRegistered.
            await
              (if isRegistered then
                 await (onPlatform stopLocationUpdatesAsync) (\<lambda>_.
                 console_log ''Background location tracking stopped'')
               else resolve ())
              (\<lambda>_.
            await (console_log ''service not registered'') (\<lambda>_.
            await (assign (\<lambda>s. s\<lparr>isTracking := False\<rparr>)) (\<lambda>_.
            await (assign (\<lambda>s. s\<lparr>onLocationUpdate := None\<rparr>)) (\<lambda>_.
            console_log ''Location tracking stopped''))))))))
           (\<lambda>error. console_error ''Error stopping location tracking:''))"

definition getIsTracking :: "'cb World \<Rightarrow> bool" where
  "getIsTracking w = isTracking (service w)"

definition getCurrentLocationData :: "'cb World \<Rightarrow> LocationData option" where
  "getCurrentLocationData w = currentLocation (service w)"


section \<open>Concrete scenarios\<close>

text \<open>
  Two positions, as the platform delivers them. \<open>37.0001\<close> is not a double: the
  literal denotes the nearest one, whose exact value is the fraction below.
\<close>

definition sample1 :: LocationObject where
  "sample1 =
     \<lparr> coords = \<lparr> LocationObjectCoords.latitude = Number 37, longitude = Number (- 122),
                  accuracy = Some (Number 5) \<rparr>,
       timestamp = Number 1000 \<rparr>"


text \<open>
  A device on which the user grants foreground and denies background permission, so that
  registering the background task is rejected; nothing is being watched yet.
\<close>

definition device :: Platform where
  "device =
     \<lparr> foregroundPermissions = Inr GRANTED, backgroundPermissions = Inr DENIED,
       currentPosition = Inr sample1, watchPosition = None, nextSubscription = 0,
       subscriptions = [], removeSubscription = None, taskQuery = None,
       taskRegistered = False,
       startUpdates = Some (Error ''background permission denied''),
       stopUpdates = None \<rparr>"

text \<open>
  The service right after \<open>getInstance()\<close> on that device; callbacks are named by
  strings.
\<close>

definition freshWorld :: "string World" where
  "freshWorld =
     \<lparr> platform = device, console = [], service = newLocationService, calls = [] \<rparr>"

text \<open>
  The same device once its position fix fails, with a sample already stored.
\<close>

definition noFixWorld :: "string World" where
  "noFixWorld =
     \<lparr> platform = device\<lparr>currentPosition := Inl (Error ''no fix'')\<rparr>, console = [],
       service = newLocationService\<lparr>currentLocation := Some (toLocationData sample1)\<rparr>,
       calls = [] \<rparr>"

text \<open>
  A tracking service, with its watch open and a callback stored, on the same device once
  the task manager rejects the registration query.
\<close>

definition failedTeardown :: "string World" where
  "failedTeardown =
     \<lparr> platform = device\<lparr>subscriptions := [0], nextSubscription := 1,
                          taskQuery := Some (Error ''task manager unavailable'')\<rparr>,
       console = [],
       service = \<lparr> isTracking = True, currentLocation = None,
                   locationSubscription = Some 0, onLocationUpdate = Some ''cb'' \<rparr>,
       calls = [] \<rparr>"


text \<open>
  The view mounted on the device, after the user pressed "Start Tracking" and confirmed
  with "Start".
\<close>

definition trackingView :: View where
  "trackingView =
     snd (press (\<lambda>scope. handleStartTracking scope Start)
            (snd (mount device ''10:00:00'')))"

section \<open>Evaluation rules\<close>

lemmas async_defs = resolve_def throw_def await_def tryCatch_def onPlatform_def
  console_log_def console_error_def this_def assign_def invoke_def

lemmas platform_defs = requestForegroundPermissionsAsync_def
  requestBackgroundPermissionsAsync_def getCurrentPositionAsync_def watchPositionAsync_def
  remove_def isTaskRegisteredAsync_def startLocationUpdatesAsync_def
  stopLocationUpdatesAsync_def

lemmas view_defs = setState_def alert_def toLocaleTimeString_def

lemmas scenario_defs = freshWorld_def noFixWorld_def device_def newLocationService_def

lemma digits_small: "n < 10 \<Longrightarrow> digits n = [''0123456789'' ! n]"
  by (simp add: digits.simps)

lemma digits_large:
  "10 \<le> n \<Longrightarrow> digits n = digits (n div 10) @ [''0123456789'' ! (n mod 10)]"
  by (subst digits.simps) simp

lemma floor_rat_numeral:
  "\<lfloor>(numeral a :: rat) / numeral b\<rfloor> = numeral a div numeral b"
  using floor_divide_of_int_eq [of "numeral a" "numeral b", where ?'a = rat] by simp

lemmas toFixed_eval = toFixed_def Let_def digits_small digits_large floor_rat_numeral




section \<open>LocationService: permissions and the one-shot fetch\<close>

text \<open>
  C4. \<open>requestPermissions\<close> never throws. It returns \<open>false\<close> exactly when the
  foreground request answers with a status other than \<open>granted\<close>, or a platform call
  it makes is rejected (the foreground request, or the background request after a granted
  foreground one). With the foreground permission granted it returns \<open>true\<close> whatever
  status the background request answers, \<open>denied\<close> included.
\<close>

theorem requestPermissions_result:
  "(\<exists>b. fst (requestPermissions w) = Inr b) \<and>
   (fst (requestPermissions w) = Inr False \<longleftrightarrow>
      (\<exists>s. foregroundPermissions (platform w) = Inr s \<and> s \<noteq> GRANTED)
      \<or> isl (foregroundPermissions (platform w))
      \<or> (foregroundPermissions (platform w) = Inr GRANTED
           \<and> isl (backgroundPermissions (platform w)))) \<and>
   (foregroundPermissions (platform w) = Inr GRANTED \<longrightarrow>
      (\<forall>s. backgroundPermissions (platform w) = Inr s \<longrightarrow>
         fst (requestPermissions w) = Inr True))"
  by (cases "foregroundPermissions (platform w)"; cases "backgroundPermissions (platform w)")
     (auto simp add: requestPermissions_def async_defs platform_defs)

theorem requestPermissions_result_witness:
  "foregroundPermissions (platform freshWorld) = Inr GRANTED \<and>
   backgroundPermissions (platform freshWorld) = Inr DENIED \<and>
   fst (requestPermissions freshWorld) = Inr True \<and>
   fst (requestPermissions freshWorld) \<noteq> Inr False"
  using requestPermissions_result [of freshWorld]
  by (simp add: scenario_defs)

text \<open>
  C10. \<open>requestPermissions\<close> leaves the service as it was, whatever the platform
  answers: \<open>isTracking\<close>, the stored sample, the subscription handle and the callback
  are unchanged, and no callback is called.
\<close>

theorem requestPermissions_frame:
  "service (snd (requestPermissions w)) = service w \<and>
   calls (snd (requestPermissions w)) = calls w"
  by (simp add: requestPermissions_def async_defs platform_defs
      split: sum.split prod.split)

text \<open>
  C5. When the one-shot fetch is rejected, \<open>getCurrentLocation\<close> returns \<open>null\<close>
  and the service, the stored sample with it, is unchanged. When the fetch succeeds, the
  sample made of the latitude, longitude, accuracy and timestamp of the fetched position
  is returned and is the stored one afterwards.
\<close>

theorem getCurrentLocation_result:
  "(\<forall>e. currentPosition (platform w) = Inl e \<longrightarrow>
      fst (getCurrentLocation w) = Inr None \<and>
      service (snd (getCurrentLocation w)) = service w) \<and>
   (\<forall>location. currentPosition (platform w) = Inr location \<longrightarrow>
      fst (getCurrentLocation w) =
        Inr (Some \<lparr> latitude = LocationObjectCoords.latitude (coords location),
                     longitude = LocationObjectCoords.longitude (coords location),
                     accuracy = LocationObjectCoords.accuracy (coords location),
                     timestamp = LocationObject.timestamp location \<rparr>) \<and>
      currentLocation (service (snd (getCurrentLocation w))) =
        Some \<lparr> latitude = LocationObjectCoords.latitude (coords location),
               longitude = LocationObjectCoords.longitude (coords location),
               accuracy = LocationObjectCoords.accuracy (coords location),
               timestamp = LocationObject.timestamp location \<rparr>)"
  by (simp add: getCurrentLocation_def async_defs platform_defs Let_def toLocationData_def)

theorem getCurrentLocation_result_witness:
  "currentPosition (platform noFixWorld) = Inl (Error ''no fix'') \<and>
   currentLocation (service noFixWorld) =
     Some \<lparr> latitude = Number 37, longitude = Number (- 122),
            accuracy = Some (Number 5), timestamp = Number 1000 \<rparr> \<and>
   fst (getCurrentLocation noFixWorld) = Inr None \<and>
   currentLocation (service (snd (getCurrentLocation noFixWorld))) =
     Some \<lparr> latitude = Number 37, longitude = Number (- 122),
            accuracy = Some (Number 5), timestamp = Number 1000 \<rparr> \<and>
   currentPosition (platform freshWorld) = Inr sample1 \<and>
   currentLocation (service freshWorld) = None \<and>
   fst (getCurrentLocation freshWorld) =
     Inr (Some \<lparr> latitude = Number 37, longitude = Number (- 122),
                  accuracy = Some (Number 5), timestamp = Number 1000 \<rparr>) \<and>
   currentLocation (service (snd (getCurrentLocation freshWorld))) =
     Some \<lparr> latitude = Number 37, longitude = Number (- 122),
            accuracy = Some (Number 5), timestamp = Number 1000 \<rparr>"
  using getCurrentLocation_result [of noFixWorld] getCurrentLocation_result [of freshWorld]
  by (simp add: scenario_defs sample1_def toLocationData_def)

section \<open>LocationService: stopping\<close>

text \<open>
  C8. When the service is not tracking, \<open>stopTracking\<close> returns normally and changes
  nothing at all: the fields of the service, the platform and the console are as before.
\<close>

theorem stopTracking_noop:
  "\<not> isTracking (service w) \<Longrightarrow> stopTracking w = (Inr (), w)"
  by (simp add: stopTracking_def async_defs)

theorem stopTracking_noop_witness:
  "\<not> isTracking (service freshWorld) \<and> stopTracking freshWorld = (Inr (), freshWorld)"
  using stopTracking_noop [of freshWorld]
  by (simp add: scenario_defs)

text \<open>
  The claim C1 as the specification states it fails: on a tracking service whose
  registration query is rejected, \<open>stopTracking\<close> returns with \<open>isTracking\<close> still
  true and the callback still stored.
\<close>

theorem stopTracking_clears_counterexample:
  "isTracking (service failedTeardown) \<and>
   taskQuery (platform failedTeardown) = Some (Error ''task manager unavailable'') \<and>
   \<not> (\<not> isTracking (service (snd (stopTracking failedTeardown))) \<and>
      onLocationUpdate (service (snd (stopTracking failedTeardown))) = None)"
  by (simp add: failedTeardown_def device_def stopTracking_def async_defs platform_defs)

text \<open>
  C1, amended. On a tracking service, when a platform call of the teardown is rejected
  (removing the subscription that is held, the registration query, or unregistering the
  task that is registered), \<open>stopTracking\<close> catches the error: it returns normally
  and logs one line, the error line, on the console. The flags are not cleared:
  \<open>isTracking\<close> stays true and the stored callback is kept.
\<close>

theorem stopTracking_teardown:
  assumes "isTracking (service w)"
    and "(locationSubscription (service w) \<noteq> None \<and> removeSubscription (platform w) \<noteq> None)
         \<or> taskQuery (platform w) \<noteq> None
         \<or> (taskRegistered (platform w) \<and> stopUpdates (platform w) \<noteq> None)"
  shows "fst (stopTracking w) = Inr () \<and>
    console (snd (stopTracking w)) = console w @ [''Error stopping location tracking:''] \<and>
    isTracking (service (snd (stopTracking w))) \<and>
    onLocationUpdate (service (snd (stopTracking w))) = onLocationUpdate (service w)"
  using assms
  by (cases "locationSubscription (service w)"; cases "removeSubscription (platform w)";
      cases "taskQuery (platform w)"; cases "stopUpdates (platform w)";
      cases "taskRegistered (platform w)")
     (simp_all add: stopTracking_def async_defs platform_defs)

theorem stopTracking_teardown_witness:
  "isTracking (service failedTeardown) \<and>
   taskQuery (platform failedTeardown) \<noteq> None \<and>
   fst (stopTracking failedTeardown) = Inr () \<and>
   console (snd (stopTracking failedTeardown)) = [''Error stopping location tracking:''] \<and>
   isTracking (service (snd (stopTracking failedTeardown))) \<and>
   onLocationUpdate (service (snd (stopTracking failedTeardown))) = Some ''cb''"
  using stopTracking_teardown [of failedTeardown]
  by (simp add: failedTeardown_def device_def)

section \<open>LocationService: starting and deliveries\<close>




text \<open>
  C6. On a service that is not tracking, when the platform opens the foreground watch
  and the background registration fails (the registration query is rejected, or the task
  is not registered and registering it is rejected), \<open>startTracking\<close> returns
  \<open>true\<close>, \<open>isTracking\<close> is true, the service holds the watch that was opened, and
  the call registers no background task: the registration is what it was before, absent
  in the second case.
\<close>

theorem startTracking_background_failure:
  assumes "\<not> isTracking (service w)"
    and "watchPosition (platform w) = None"
    and "taskQuery (platform w) \<noteq> None
         \<or> (\<not> taskRegistered (platform w) \<and> startUpdates (platform w) \<noteq> None)"
  shows "fst (startTracking cb w) = Inr True \<and>
    isTracking (service (snd (startTracking cb w))) \<and>
    locationSubscription (service (snd (startTracking cb w))) =
      Some (nextSubscription (platform w)) \<and>
    nextSubscription (platform w) \<in> set (subscriptions (platform (snd (startTracking cb w)))) \<and>
    taskRegistered (platform (snd (startTracking cb w))) = taskRegistered (platform w)"
  using assms
  by (cases "taskQuery (platform w)"; cases "startUpdates (platform w)";
      cases "taskRegistered (platform w)")
     (simp_all add: startTracking_def async_defs platform_defs)

theorem startTracking_background_failure_witness:
  "\<not> isTracking (service freshWorld) \<and>
   watchPosition (platform freshWorld) = None \<and>
   \<not> taskRegistered (platform freshWorld) \<and>
   startUpdates (platform freshWorld) = Some (Error ''background permission denied'') \<and>
   fst (requestPermissions freshWorld) = Inr True \<and>
   fst (startTracking (Some ''cb'') freshWorld) = Inr True \<and>
   isTracking (service (snd (startTracking (Some ''cb'') freshWorld))) \<and>
   \<not> taskRegistered (platform (snd (startTracking (Some ''cb'') freshWorld)))"
  using startTracking_background_failure [of freshWorld "Some ''cb''"]
  by (simp add: scenario_defs requestPermissions_def async_defs platform_defs)



section \<open>LocationTracker: unmounting and formatting\<close>

text \<open>
  C2. The view is tracking and holds the open watch 0; unmounting it runs the cleanup
  function of the mount, which reads \<open>watchSubscription\<close> as it was in the first
  render, absent, and removes nothing: the watch is still open afterwards.
\<close>

theorem unmount_while_tracking:
  "LocationTracker.isTracking (hooks trackingView) \<and>
   watchSubscription (hooks trackingView) = Some 0 \<and>
   subscriptions (platform trackingView) = [0] \<and>
   unmount trackingView = (Inr (), trackingView) \<and>
   subscriptions (platform (snd (unmount trackingView))) = [0]"
proof -
  have tv: "LocationTracker.isTracking (hooks trackingView) \<and>
      watchSubscription (hooks trackingView) = Some 0 \<and>
      subscriptions (platform trackingView) = [0] \<and>
      mountScope trackingView = initialState"
    by (simp add: trackingView_def press_def mount_def checkPermissions_def
        handleStartTracking_def device_def initialState_def async_defs platform_defs
        view_defs Let_def)
  have um: "unmount trackingView = (Inr (), trackingView)"
    by (simp add: unmount_def cleanup_def tv initialState_def async_defs)
  show ?thesis
    by (simp add: tv um)
qed

text \<open>
  C9. The latitude 37.123456789 (the double of that literal, by its exact value) renders
  as \<open>37.123457\<close> and an absent accuracy as \<open>Unknown\<close>. The accuracy 5.0 renders as
  the two characters U+00C2, U+00B1 followed by \<open>5.0m\<close>: one character more than the
  plus-minus sign, \<open>5.0\<close> and \<open>m\<close>.
\<close>

theorem format_renders:
  "formatCoordinate f (Number (2612331033775705 / 70368744177664)) None =
     Inr ''37.123457'' \<and>
   formatAccuracy f None = Inr ''Unknown'' \<and>
   formatAccuracy f (Some (Number 5)) = Inr (CHR 0xC2 # CHR 0xB1 # ''5.0m'')"
  by (simp add: formatCoordinate_def formatAccuracy_def toFixed_eval)

end
